theory Spec2Isabelle
  imports Main
begin

section \<open>TON Connect sign-data: data model\<close>

text \<open>
  Byte sequences (Node \<open>Buffer\<close>, \<open>Uint8Array\<close>) and JavaScript strings are both
  modelled as lists of 8-bit characters; a string stands for its UTF-8 bytes.
\<close>

type_synonym bytes = string

text \<open>
  Every \<open>throw\<close> of the code and of its collaborators is a value of this type; a
  function that can throw returns \<open>error + 'a\<close>, with \<open>Inl\<close> the exception.
\<close>

datatype error =
    AddressFormatError
  | DomainEmpty
  | EmptyLabel
  | InvalidLabel
  | EncodedNameTooLarge nat
  | PayloadDecodeError
  | BadSecretKeySize
  | BadSignatureSize
  | BadPublicKeySize

text \<open>
  \<open>types.ts\<close>: the payload is a union tagged by its \<open>type\<close> field: \<open>Text text\<close>,
  \<open>Binary bytes\<close> (base64 text) and \<open>Cell schema cell\<close> (a TL-B schema and a base64
  bag of cells).
\<close>

datatype SignDataPayload =
    Text string
  | Binary string
  | Cell string string

fun is_cell :: "SignDataPayload \<Rightarrow> bool" where
  "is_cell (Cell s c) = True"
| "is_cell p = False"

record SignDataParams =
  p_payload :: SignDataPayload
  p_domain :: string
  p_privateKey :: bytes
  p_address :: string

record SignDataResult =
  signature :: string
  address :: string
  timestamp :: int
  domain :: string
  payload :: SignDataPayload

text \<open>The value of \<open>Address.parse\<close> of \<open>@ton/core\<close>: a workchain and a 32-byte hash.\<close>

datatype Address = Address (workChain: int) (hash: bytes)

section \<open>The domain-name encoder\<close>

text \<open>
  Modelled from the spec: \<open>encodeDnsName\<close> of \<open>utils.ts\<close>, a file of this repository
  that is not among the sources; the definitions of this section follow the ten steps
  of the specification's section 4.1. The punycode conversion of a label is a
  parameter \<open>toASCII\<close>.
\<close>

definition lower :: "char \<Rightarrow> char" where
  "lower c = (let n = (of_char c :: nat) in
     if 65 \<le> n \<and> n \<le> 90 then char_of (n + 32) else c)"

text \<open>A character a label may hold: printable ASCII, no space, no control character.\<close>

definition is_label_char :: "char \<Rightarrow> bool" where
  "is_label_char c = (let n = (of_char c :: nat) in 33 \<le> n \<and> n \<le> 126)"

text \<open>\<open>String.prototype.split\<close> on one separator character.\<close>

fun split_on :: "char \<Rightarrow> string \<Rightarrow> string list" where
  "split_on s [] = [[]]"
| "split_on s (c # cs) =
     (if c = s then [] # split_on s cs
      else (case split_on s cs of
              [] \<Rightarrow> [[c]]
            | l # ls \<Rightarrow> (c # l) # ls))"

text \<open>
  Step 6: lowercase the label; a label with a character outside the label alphabet goes
  through punycode; either way the final label must be 1 to 63 bytes of the label
  alphabet.
\<close>

definition encodeLabel :: "(string \<Rightarrow> string) \<Rightarrow> string \<Rightarrow> error + string" where
  "encodeLabel toASCII lbl =
     (let low = map lower lbl;
          ascii = (if list_all is_label_char low then low else toASCII low)
      in if 1 \<le> length ascii \<and> length ascii \<le> 63 \<and> list_all is_label_char ascii
         then Inr ascii else Inl InvalidLabel)"

fun encodeLabels :: "(string \<Rightarrow> string) \<Rightarrow> string list \<Rightarrow> error + string list" where
  "encodeLabels toASCII [] = Inr []"
| "encodeLabels toASCII (l # ls) =
     (case encodeLabel toASCII l of
        Inl e \<Rightarrow> Inl e
      | Inr a \<Rightarrow>
          (case encodeLabels toASCII ls of
             Inl e \<Rightarrow> Inl e
           | Inr as \<Rightarrow> Inr (a # as)))"

text \<open>Steps 7 and 8: the labels in reversed order, each followed by one zero byte.\<close>

definition assemble_labels :: "string list \<Rightarrow> bytes" where
  "assemble_labels ls = concat (map (\<lambda>l. l @ [CHR 0x00]) (rev ls))"

definition encodeDnsName :: "(string \<Rightarrow> string) \<Rightarrow> string \<Rightarrow> error + bytes" where
  "encodeDnsName toASCII name =
     (if name = [] then Inl DomainEmpty
      else
        let norm = (if last name = CHR ''.'' then butlast name else name) in
        if norm = [] then Inr [CHR 0x00]
        else
          let labels = split_on (CHR ''.'') norm in
          if [] \<in> set labels then Inl EmptyLabel
          else
            (case encodeLabels toASCII labels of
               Inl e \<Rightarrow> Inl e
             | Inr ascii \<Rightarrow>
                 (let encoded = assemble_labels ascii in
                  if length encoded > 126
                  then Inl (EncodedNameTooLarge (length encoded))
                  else Inr encoded)))"

text \<open>
  Vocabulary for stating the encoder's laws: a domain written from its labels, and the
  labels the encoder takes without punycode (non-empty, no dot, every character in the
  label alphabet once lowercased).
\<close>

fun join_dots :: "string list \<Rightarrow> string" where
  "join_dots [] = []"
| "join_dots [l] = l"
| "join_dots (l # ls) = l @ CHR ''.'' # join_dots ls"

definition label_chars :: "string \<Rightarrow> bool" where
  "label_chars l =
     (l \<noteq> [] \<and> list_all (\<lambda>c. c \<noteq> CHR ''.'' \<and> is_label_char (lower c)) l)"

definition plain_label :: "string \<Rightarrow> bool" where
  "plain_label l = (label_chars l \<and> length l \<le> 63)"

definition encoded_size :: "string list \<Rightarrow> nat" where
  "encoded_size ls = sum_list (map length ls) + length ls"

section \<open>The collaborators\<close>

text \<open>
  The libraries the facade calls, as parameters: \<open>Address.parse\<close> of \<open>@ton/core\<close>
  (throws on malformed text), the Ed25519 core of \<open>tweetnacl\<close> and the base64 codec of
  Node's \<open>Buffer\<close> (\<open>toString('base64')\<close> and the lenient \<open>Buffer.from(s, 'base64')\<close>,
  which never throws).
\<close>

record libs =
  Address_parse :: "string \<Rightarrow> error + Address"
  ed25519_sign :: "bytes \<Rightarrow> bytes \<Rightarrow> bytes"
  ed25519_verify :: "bytes \<Rightarrow> bytes \<Rightarrow> bytes \<Rightarrow> bool"
  to_base64 :: "bytes \<Rightarrow> string"
  from_base64 :: "string \<Rightarrow> bytes"

text \<open>
  \<open>nacl.sign.detached(msg, secretKey)\<close> throws \<open>bad secret key size\<close> unless the key
  has 64 bytes; \<open>nacl.sign.detached.verify(msg, sig, publicKey)\<close> throws
  \<open>bad signature size\<close> unless the signature has 64 bytes, then
  \<open>bad public key size\<close> unless the key has 32 bytes.
\<close>

definition nacl_sign_detached :: "libs \<Rightarrow> bytes \<Rightarrow> bytes \<Rightarrow> error + bytes" where
  "nacl_sign_detached L msg secretKey =
     (if length secretKey \<noteq> 64 then Inl BadSecretKeySize
      else Inr (ed25519_sign L msg secretKey))"

definition nacl_sign_detached_verify :: "libs \<Rightarrow> bytes \<Rightarrow> bytes \<Rightarrow> bytes \<Rightarrow> error + bool" where
  "nacl_sign_detached_verify L msg sig publicKey =
     (if length sig \<noteq> 64 then Inl BadSignatureSize
      else if length publicKey \<noteq> 32 then Inl BadPublicKeySize
      else Inr (ed25519_verify L msg sig publicKey))"

text \<open>
  The two functions \<open>sign.ts\<close> and \<open>verify.ts\<close> import from \<open>./utils\<close>, as parameters:
  each takes the payload, the parsed address, the domain and the timestamp, and
  returns the digest or throws.
\<close>

record utils =
  createTextBinaryHash :: "SignDataPayload \<Rightarrow> Address \<Rightarrow> string \<Rightarrow> int \<Rightarrow> error + bytes"
  createCellHash :: "SignDataPayload \<Rightarrow> Address \<Rightarrow> string \<Rightarrow> int \<Rightarrow> error + bytes"

section \<open>The signing facade\<close>

text \<open>
  \<open>signData\<close> of \<open>sign.ts\<close>. \<open>now\<close> is the value \<open>Date.now()\<close> returns, in
  milliseconds; \<open>Math.floor(now / 1000)\<close> is \<open>now div 1000\<close>.
\<close>

definition signData :: "libs \<Rightarrow> utils \<Rightarrow> int \<Rightarrow> SignDataParams \<Rightarrow> error + SignDataResult" where
  "signData L U now params =
     (let payload = p_payload params;
          domain = p_domain params;
          privateKey = p_privateKey params;
          address = p_address params;
          timestamp = now div 1000
      in case Address_parse L address of
           Inl e \<Rightarrow> Inl e
         | Inr parsedAddr \<Rightarrow>
             (case (if is_cell payload
                    then createCellHash U payload parsedAddr domain timestamp
                    else createTextBinaryHash U payload parsedAddr domain timestamp) of
                Inl e \<Rightarrow> Inl e
              | Inr finalHash \<Rightarrow>
                  (case nacl_sign_detached L finalHash privateKey of
                     Inl e \<Rightarrow> Inl e
                   | Inr sig \<Rightarrow>
                       Inr \<lparr>signature = to_base64 L sig,
                            address = address,
                            timestamp = timestamp,
                            domain = domain,
                            payload = payload\<rparr>)))"

text \<open>\<open>verifySignData\<close> of \<open>verify.ts\<close>.\<close>

definition verifySignData :: "libs \<Rightarrow> utils \<Rightarrow> SignDataResult \<Rightarrow> bytes \<Rightarrow> error + bool" where
  "verifySignData L U signedData publicKey =
     (case Address_parse L (address signedData) of
        Inl e \<Rightarrow> Inl e
      | Inr parsedAddr \<Rightarrow>
          (case (if is_cell (payload signedData)
                 then createCellHash U (payload signedData) parsedAddr
                        (domain signedData) (timestamp signedData)
                 else createTextBinaryHash U (payload signedData) parsedAddr
                        (domain signedData) (timestamp signedData)) of
             Inl e \<Rightarrow> Inl e
           | Inr finalHash \<Rightarrow>
               nacl_sign_detached_verify L finalHash
                 (from_base64 L (signature signedData)) publicKey))"

text \<open>
  The digest both functions compute before they call the signature primitive: the
  \<open>finalHash\<close> expression, and the digest \<open>verifySignData\<close> recomputes from a result.
\<close>

definition finalHash :: "utils \<Rightarrow> SignDataPayload \<Rightarrow> Address \<Rightarrow> string \<Rightarrow> int \<Rightarrow> error + bytes" where
  "finalHash U pl parsedAddr dn ts =
     (if is_cell pl then createCellHash U pl parsedAddr dn ts
      else createTextBinaryHash U pl parsedAddr dn ts)"

definition recomputedDigest :: "libs \<Rightarrow> utils \<Rightarrow> SignDataResult \<Rightarrow> error + bytes" where
  "recomputedDigest L U signedData =
     (case Address_parse L (address signedData) of
        Inl e \<Rightarrow> Inl e
      | Inr parsedAddr \<Rightarrow>
          finalHash U (payload signedData) parsedAddr (domain signedData) (timestamp signedData))"

section \<open>The digest functions, from the specification\<close>

text \<open>
  Modelled from the spec: \<open>createTextBinaryHash\<close> and \<open>createCellHash\<close> of \<open>utils.ts\<close>,
  a file of this repository that is not among the sources. The definitions follow
  sections 4.2 to 4.4 of the specification: canonicalise the domain, canonicalise the
  payload by its variant, assemble the digest; a failure of either canonicaliser is the
  failure of the call. The specification leaves the byte layout open, so the digest
  assembler is a parameter, with the punycode conversion and the payload codecs.
\<close>

datatype segment =
    TextSegment bytes
  | BinarySegment bytes
  | CellSegment bytes bytes

record codecs =
  toASCII :: "string \<Rightarrow> string"
  base64_decode :: "string \<Rightarrow> error + bytes"
  cell_decode :: "string \<Rightarrow> error + bytes"
  content_hash :: "bytes \<Rightarrow> error + bytes"
  schema_hash :: "string \<Rightarrow> bytes"
  assemble :: "Address \<Rightarrow> bytes \<Rightarrow> int \<Rightarrow> segment \<Rightarrow> bytes"

fun canonicalize :: "codecs \<Rightarrow> SignDataPayload \<Rightarrow> error + segment" where
  "canonicalize K (Text t) = Inr (TextSegment t)"
| "canonicalize K (Binary b) =
     (case base64_decode K b of
        Inl e \<Rightarrow> Inl e
      | Inr raw \<Rightarrow> Inr (BinarySegment raw))"
| "canonicalize K (Cell sch c) =
     (case cell_decode K c of
        Inl e \<Rightarrow> Inl e
      | Inr blob \<Rightarrow>
          (case content_hash K blob of
             Inl e \<Rightarrow> Inl e
           | Inr h \<Rightarrow> Inr (CellSegment (schema_hash K sch) h)))"

definition spec_createTextBinaryHash ::
  "codecs \<Rightarrow> SignDataPayload \<Rightarrow> Address \<Rightarrow> string \<Rightarrow> int \<Rightarrow> error + bytes" where
  "spec_createTextBinaryHash K pl parsedAddr dn ts =
     (case encodeDnsName (toASCII K) dn of
        Inl e \<Rightarrow> Inl e
      | Inr canonicalDomain \<Rightarrow>
          (case canonicalize K pl of
             Inl e \<Rightarrow> Inl e
           | Inr seg \<Rightarrow> Inr (assemble K parsedAddr canonicalDomain ts seg)))"

definition spec_createCellHash ::
  "codecs \<Rightarrow> SignDataPayload \<Rightarrow> Address \<Rightarrow> string \<Rightarrow> int \<Rightarrow> error + bytes" where
  "spec_createCellHash K pl parsedAddr dn ts =
     (case encodeDnsName (toASCII K) dn of
        Inl e \<Rightarrow> Inl e
      | Inr canonicalDomain \<Rightarrow>
          (case canonicalize K pl of
             Inl e \<Rightarrow> Inl e
           | Inr seg \<Rightarrow> Inr (assemble K parsedAddr canonicalDomain ts seg)))"

definition spec_utils :: "codecs \<Rightarrow> utils" where
  "spec_utils K =
     \<lparr>createTextBinaryHash = spec_createTextBinaryHash K,
      createCellHash = spec_createCellHash K\<rparr>"


section \<open>A small instance of the collaborators\<close>

text \<open>
  Stand-ins that run, for evaluating the facade on concrete inputs. They keep the
  interfaces and the failure behaviour of the collaborators and are not the production
  algorithms: the address parser takes the 48-character friendly form and does not check
  its checksum, the signature of a digest is the digest followed by the public half of
  the secret key, the signature codec is the identity, the payload codecs check the
  base64 alphabet, and the digest is the first 32 bytes of the assembled fields.
\<close>

definition is_base64url_char :: "char \<Rightarrow> bool" where
  "is_base64url_char c =
     (let n = (of_char c :: nat) in
      (65 \<le> n \<and> n \<le> 90) \<or> (97 \<le> n \<and> n \<le> 122) \<or> (48 \<le> n \<and> n \<le> 57)
      \<or> c = CHR ''-'' \<or> c = CHR ''_'')"

definition is_base64_char :: "char \<Rightarrow> bool" where
  "is_base64_char c =
     (let n = (of_char c :: nat) in
      (65 \<le> n \<and> n \<le> 90) \<or> (97 \<le> n \<and> n \<le> 122) \<or> (48 \<le> n \<and> n \<le> 57)
      \<or> c = CHR ''+'' \<or> c = CHR ''/'' \<or> c = CHR ''='')"

definition demo_parse :: "string \<Rightarrow> error + Address" where
  "demo_parse s =
     (if length s = 48 \<and> list_all is_base64url_char s
      then Inr (Address 0 (take 32 (drop 2 s)))
      else Inl AddressFormatError)"

definition demo_libs :: libs where
  "demo_libs =
     \<lparr>Address_parse = demo_parse,
      ed25519_sign = (\<lambda>msg secretKey. msg @ drop 32 secretKey),
      ed25519_verify = (\<lambda>msg sig publicKey. sig = msg @ publicKey),
      to_base64 = (\<lambda>bs. bs),
      from_base64 = (\<lambda>s. s)\<rparr>"

definition demo_decode :: "string \<Rightarrow> error + bytes" where
  "demo_decode s =
     (if length s mod 4 = 0 \<and> list_all is_base64_char s then Inr s
      else Inl PayloadDecodeError)"

definition segment_bytes :: "segment \<Rightarrow> bytes" where
  "segment_bytes seg =
     (case seg of
        TextSegment t \<Rightarrow> ''txt'' @ t
      | BinarySegment b \<Rightarrow> ''bin'' @ b
      | CellSegment sh ch \<Rightarrow> sh @ ch)"

definition demo_assemble :: "Address \<Rightarrow> bytes \<Rightarrow> int \<Rightarrow> segment \<Rightarrow> bytes" where
  "demo_assemble a canonicalDomain ts seg =
     take 32 (char_of (nat (ts mod 256)) # canonicalDomain @ segment_bytes seg
              @ hash a @ replicate 32 (CHR 0x00))"

definition demo_codecs :: codecs where
  "demo_codecs =
     \<lparr>toASCII = (\<lambda>l. l),
      base64_decode = demo_decode,
      cell_decode = demo_decode,
      content_hash = (\<lambda>blob. Inr (take 8 blob)),
      schema_hash = take 4,
      assemble = demo_assemble\<rparr>"

definition demo_secretKey :: bytes where
  "demo_secretKey = replicate 32 (CHR ''s'') @ replicate 32 (CHR ''p'')"

definition demo_publicKey :: bytes where
  "demo_publicKey = replicate 32 (CHR ''p'')"

definition demo_address :: string where
  "demo_address = ''UQCyqTmXJpshFu1GW1tyTX6paa3c-37OG9s3uv8ZzX_9GDfx''"

definition demo_params :: SignDataParams where
  "demo_params =
     \<lparr>p_payload = Cell ''message#_ text:string = Message;'' ''te6cckEBAQEAEQAA'',
      p_domain = ''example.com'',
      p_privateKey = demo_secretKey,
      p_address = demo_address\<rparr>"

definition demo_now :: int where
  "demo_now = 1703980800123"

text \<open>What \<open>signData\<close> returns on \<open>demo_params\<close> at \<open>demo_now\<close> in this instance.\<close>

definition demo_signature :: string where
  "demo_signature =
     [CHR 0x00] @ ''com'' @ [CHR 0x00] @ ''example'' @ [CHR 0x00]
     @ ''mess'' @ ''te6cckEB'' @ ''CyqTmXJ'' @ replicate 32 (CHR ''p'')"

definition demo_signed :: SignDataResult where
  "demo_signed =
     \<lparr>signature = demo_signature,
      address = demo_address,
      timestamp = 1703980800,
      domain = ''example.com'',
      payload = Cell ''message#_ text:string = Message;'' ''te6cckEBAQEAEQAA''\<rparr>"

section \<open>Laws of the domain-name encoder\<close>

lemma split_on_no_sep: "s \<notin> set l \<Longrightarrow> split_on s l = [l]"
  by (induction l) auto

lemma split_on_append: "s \<notin> set l \<Longrightarrow> split_on s (l @ s # r) = l # split_on s r"
  by (induction l) auto

lemma split_on_join_dots:
  "ls \<noteq> [] \<Longrightarrow> \<forall>l\<in>set ls. CHR ''.'' \<notin> set l \<Longrightarrow> split_on (CHR ''.'') (join_dots ls) = ls"
  by (induction ls rule: join_dots.induct) (auto simp: split_on_no_sep split_on_append)

lemma join_dots_nonempty:
  "ls \<noteq> [] \<Longrightarrow> \<forall>l\<in>set ls. l \<noteq> [] \<Longrightarrow> join_dots ls \<noteq> []"
  by (induction ls rule: join_dots.induct) auto

lemma last_join_dots:
  "ls \<noteq> [] \<Longrightarrow> \<forall>l\<in>set ls. l \<noteq> [] \<Longrightarrow> last (join_dots ls) = last (last ls)"
  by (induction ls rule: join_dots.induct) (auto simp: join_dots_nonempty)

lemma label_chars_no_dot: "label_chars l \<Longrightarrow> CHR ''.'' \<notin> set l"
  by (auto simp: label_chars_def list_all_iff)

lemma label_chars_nonempty: "label_chars l \<Longrightarrow> l \<noteq> []"
  by (simp add: label_chars_def)

lemma label_chars_lower: "label_chars l \<Longrightarrow> list_all is_label_char (map lower l)"
  by (auto simp: label_chars_def list_all_iff)

lemma encodeLabel_plain: "plain_label l \<Longrightarrow> encodeLabel f l = Inr (map lower l)"
  using label_chars_lower [of l] label_chars_nonempty [of l]
  by (cases l) (auto simp: encodeLabel_def plain_label_def Let_def)

lemma encodeLabel_long:
  "label_chars l \<Longrightarrow> 63 < length l \<Longrightarrow> encodeLabel f l = Inl InvalidLabel"
  using label_chars_lower [of l]
  by (auto simp: encodeLabel_def Let_def)

lemma encodeLabel_label_chars:
  "label_chars l \<Longrightarrow> encodeLabel f l = (if length l \<le> 63 then Inr (map lower l) else Inl InvalidLabel)"
  by (simp add: encodeLabel_plain encodeLabel_long plain_label_def)

lemma encodeLabels_plain:
  "list_all plain_label ls \<Longrightarrow> encodeLabels f ls = Inr (map (map lower) ls)"
  by (induction ls) (auto simp: encodeLabel_plain)

lemma encodeLabels_long:
  "list_all label_chars ls \<Longrightarrow> \<exists>l\<in>set ls. 63 < length l \<Longrightarrow> encodeLabels f ls = Inl InvalidLabel"
proof (induction ls)
  case Nil
  then show ?case by simp
next
  case (Cons l ls)
  show ?case
  proof (cases "length l \<le> 63")
    case True
    then have "\<exists>l\<in>set ls. 63 < length l" using Cons.prems(2) by auto
    then have "encodeLabels f ls = Inl InvalidLabel" using Cons by simp
    then show ?thesis using Cons.prems(1) True by (simp add: encodeLabel_label_chars)
  next
    case False
    then show ?thesis using Cons.prems(1) by (simp add: encodeLabel_label_chars)
  qed
qed

lemma length_assemble_labels: "length (assemble_labels ls) = encoded_size ls"
  unfolding assemble_labels_def encoded_size_def
  by (induction ls) (auto simp: length_concat)

lemma encoded_size_lower: "encoded_size (map (map lower) ls) = encoded_size ls"
  by (simp add: encoded_size_def comp_def)

lemma encodeDnsName_prelude:
  assumes "ls \<noteq> []" and "list_all label_chars ls"
  shows "encodeDnsName f (join_dots ls) =
    (case encodeLabels f ls of
       Inl e \<Rightarrow> Inl e
     | Inr ascii \<Rightarrow>
         (if length (assemble_labels ascii) > 126
          then Inl (EncodedNameTooLarge (length (assemble_labels ascii)))
          else Inr (assemble_labels ascii)))"
proof -
  have ne: "\<forall>l\<in>set ls. l \<noteq> []" and nd: "\<forall>l\<in>set ls. CHR ''.'' \<notin> set l"
    using assms(2) by (auto simp: list_all_iff label_chars_no_dot label_chars_nonempty)
  have j: "join_dots ls \<noteq> []" using assms(1) ne by (rule join_dots_nonempty)
  have "last ls \<in> set ls" using assms(1) by simp
  then have "last (last ls) \<in> set (last ls)" "CHR ''.'' \<notin> set (last ls)" using ne nd by auto
  then have l: "last (join_dots ls) \<noteq> CHR ''.''"
    using last_join_dots [OF assms(1) ne] by metis
  have s: "split_on (CHR ''.'') (join_dots ls) = ls"
    using assms(1) nd by (rule split_on_join_dots)
  have e: "[] \<notin> set ls" using ne by auto
  show ?thesis
    by (simp add: encodeDnsName_def j l s e Let_def split: sum.split)
qed

lemma encodeDnsName_join_dots:
  assumes "ls \<noteq> []" and "list_all plain_label ls"
  shows "encodeDnsName f (join_dots ls) =
    (if encoded_size ls > 126 then Inl (EncodedNameTooLarge (encoded_size ls))
     else Inr (assemble_labels (map (map lower) ls)))"
proof -
  have "list_all label_chars ls" using assms(2) by (auto simp: list_all_iff plain_label_def)
  then show ?thesis
    using encodeDnsName_prelude [OF assms(1), of f]
    by (simp add: encodeLabels_plain [OF assms(2)] length_assemble_labels encoded_size_lower)
qed

lemma encodeDnsName_long_label:
  assumes "ls \<noteq> []" and "list_all label_chars ls" and "\<exists>l\<in>set ls. 63 < length l"
  shows "encodeDnsName f (join_dots ls) = Inl InvalidLabel"
  using encodeDnsName_prelude [OF assms(1,2), of f] encodeLabels_long [OF assms(2,3), of f]
  by simp

lemma assemble_labels_lower:
  "assemble_labels (map (map lower) ls) = concat (map (\<lambda>l. map lower l @ [CHR 0x00]) (rev ls))"
  by (simp add: assemble_labels_def rev_map comp_def)

text \<open>
  C5: \<open>encodeDnsName\<close> emits the labels of the domain in reversed order, each label
  followed by one zero byte. For every domain written from labels that need no punycode
  and whose encoding fits in 126 bytes, the result is the lowercased labels, last label
  first, each with its zero byte; \<open>tonkeeper.com\<close> gives the 14 bytes \<open>com\0tonkeeper\0\<close>,
  \<open>.\<close> gives the single zero byte, and \<open>tonkeeper\<close> gives the 10 bytes
  \<open>tonkeeper\0\<close>. The punycode conversion \<open>f\<close> is arbitrary.
\<close>

theorem encodeDnsName_reversed_labels:
  "(ls \<noteq> [] \<and> list_all plain_label ls \<and> encoded_size ls \<le> 126 \<longrightarrow>
      encodeDnsName f (join_dots ls)
        = Inr (concat (map (\<lambda>l. map lower l @ [CHR 0x00]) (rev ls))))
   \<and> encodeDnsName f ''tonkeeper.com''
        = Inr (''com'' @ [CHR 0x00] @ ''tonkeeper'' @ [CHR 0x00])
   \<and> length (''com'' @ [CHR 0x00] @ ''tonkeeper'' @ [CHR 0x00]) = 14
   \<and> encodeDnsName f ''.'' = Inr [CHR 0x00]
   \<and> encodeDnsName f ''tonkeeper'' = Inr (''tonkeeper'' @ [CHR 0x00])
   \<and> length (''tonkeeper'' @ [CHR 0x00]) = 10"
proof -
  have general: "ls \<noteq> [] \<and> list_all plain_label ls \<and> encoded_size ls \<le> 126 \<longrightarrow>
      encodeDnsName f (join_dots ls)
        = Inr (concat (map (\<lambda>l. map lower l @ [CHR 0x00]) (rev ls)))"
    by (simp add: encodeDnsName_join_dots assemble_labels_lower)
  have a: "encodeDnsName f ''tonkeeper.com''
        = Inr (''com'' @ [CHR 0x00] @ ''tonkeeper'' @ [CHR 0x00])"
    by (simp add: encodeDnsName_def encodeLabel_def assemble_labels_def lower_def is_label_char_def)
  have b: "encodeDnsName f ''.'' = Inr [CHR 0x00]"
    by (simp add: encodeDnsName_def)
  have c: "encodeDnsName f ''tonkeeper'' = Inr (''tonkeeper'' @ [CHR 0x00])"
    by (simp add: encodeDnsName_def encodeLabel_def assemble_labels_def lower_def is_label_char_def)
  show ?thesis using general a b c by simp
qed

theorem encodeDnsName_reversed_labels_witness:
  "[''ton-connect'', ''github'', ''io''] \<noteq> []
   \<and> list_all plain_label [''ton-connect'', ''github'', ''io'']
   \<and> encoded_size [''ton-connect'', ''github'', ''io''] \<le> 126
   \<and> encodeDnsName (\<lambda>l. l) ''ton-connect.github.io''
       = Inr (''io'' @ [CHR 0x00] @ ''github'' @ [CHR 0x00] @ ''ton-connect'' @ [CHR 0x00])"
proof -
  have h: "list_all plain_label [''ton-connect'', ''github'', ''io'']"
    by (simp add: plain_label_def label_chars_def lower_def is_label_char_def)
  have s: "encoded_size [''ton-connect'', ''github'', ''io''] \<le> 126"
    by (simp add: encoded_size_def)
  show ?thesis
    using h s encodeDnsName_reversed_labels [of "[''ton-connect'', ''github'', ''io'']" "\<lambda>l. l"]
    by (simp add: lower_def)
qed

text \<open>
  C6: for a domain written from labels of the label alphabet, a label of 64 bytes or
  more makes \<open>encodeDnsName\<close> fail with the invalid-label error; with every label at
  most 63 bytes, an encoding of at most 126 bytes is returned (and has exactly that
  size), and an encoding of 127 bytes or more fails with the encoded-name-too-large
  error, which carries the offending size.
\<close>

theorem encodeDnsName_size_limits:
  "ls \<noteq> [] \<and> list_all label_chars ls \<longrightarrow>
     ((\<exists>l\<in>set ls. 64 \<le> length l) \<longrightarrow> encodeDnsName f (join_dots ls) = Inl InvalidLabel)
   \<and> ((\<forall>l\<in>set ls. length l \<le> 63) \<and> encoded_size ls \<le> 126 \<longrightarrow>
        encodeDnsName f (join_dots ls) = Inr (assemble_labels (map (map lower) ls))
        \<and> length (assemble_labels (map (map lower) ls)) = encoded_size ls)
   \<and> ((\<forall>l\<in>set ls. length l \<le> 63) \<and> 127 \<le> encoded_size ls \<longrightarrow>
        encodeDnsName f (join_dots ls) = Inl (EncodedNameTooLarge (encoded_size ls)))"
proof (intro impI conjI; elim conjE)
  assume ne: "ls \<noteq> []" and lc: "list_all label_chars ls"
  {
    assume "\<exists>l\<in>set ls. 64 \<le> length l"
    then obtain l where "l \<in> set ls" and "64 \<le> length l" by blast
    then have "l \<in> set ls \<and> 63 < length l" by simp
    then have "\<exists>l\<in>set ls. 63 < length l" by blast
    then show "encodeDnsName f (join_dots ls) = Inl InvalidLabel"
      using ne lc by (simp add: encodeDnsName_long_label)
  next
    assume short: "\<forall>l\<in>set ls. length l \<le> 63"
    then have pl: "list_all plain_label ls"
      using lc by (auto simp: list_all_iff plain_label_def)
    {
      assume "encoded_size ls \<le> 126"
      then show "encodeDnsName f (join_dots ls) = Inr (assemble_labels (map (map lower) ls))"
        using ne pl by (simp add: encodeDnsName_join_dots)
      show "length (assemble_labels (map (map lower) ls)) = encoded_size ls"
        by (simp add: length_assemble_labels encoded_size_lower)
    next
      assume "127 \<le> encoded_size ls"
      then show "encodeDnsName f (join_dots ls) = Inl (EncodedNameTooLarge (encoded_size ls))"
        using ne pl by (simp add: encodeDnsName_join_dots)
    }
  }
qed


theorem encodeDnsName_size_limits_witness:
  "encodeDnsName (\<lambda>l. l) (replicate 63 (CHR ''a'') @ ''.com'')
     = Inr (''com'' @ [CHR 0x00] @ replicate 63 (CHR ''a'') @ [CHR 0x00])
   \<and> encodeDnsName (\<lambda>l. l) (replicate 64 (CHR ''a'') @ ''.com'') = Inl InvalidLabel
   \<and> (\<exists>bs. encodeDnsName (\<lambda>l. l)
              (replicate 63 (CHR ''a'') @ ''.'' @ replicate 57 (CHR ''b'') @ ''.com'') = Inr bs
           \<and> length bs = 126)
   \<and> encodeDnsName (\<lambda>l. l)
         (replicate 63 (CHR ''a'') @ ''.'' @ replicate 58 (CHR ''b'') @ ''.com'')
       = Inl (EncodedNameTooLarge 127)"
proof -
  have lc: "\<And>n c. 0 < n \<Longrightarrow> c \<noteq> CHR ''.'' \<Longrightarrow> is_label_char (lower c)
              \<Longrightarrow> label_chars (replicate n c)"
    by (auto simp: label_chars_def list_all_iff)
  have a: "label_chars (replicate 63 (CHR ''a''))" "label_chars (replicate 64 (CHR ''a''))"
    and b: "label_chars (replicate 57 (CHR ''b''))" "label_chars (replicate 58 (CHR ''b''))"
    by (rule lc; simp add: lower_def is_label_char_def)+
  have c: "label_chars ''com''"
    by (simp add: label_chars_def lower_def is_label_char_def)
  have low: "\<And>n. map lower (replicate n (CHR ''a'')) = replicate n (CHR ''a'')"
    by (simp add: lower_def)
  have r1: "encodeDnsName (\<lambda>l. l) (replicate 63 (CHR ''a'') @ ''.com'')
     = Inr (''com'' @ [CHR 0x00] @ replicate 63 (CHR ''a'') @ [CHR 0x00])"
    using encodeDnsName_size_limits [of "[replicate 63 (CHR ''a''), ''com'']" "\<lambda>l. l"] a c
    by (simp add: encoded_size_def assemble_labels_def low lower_def)
  have r2: "encodeDnsName (\<lambda>l. l) (replicate 64 (CHR ''a'') @ ''.com'') = Inl InvalidLabel"
    using encodeDnsName_size_limits [of "[replicate 64 (CHR ''a''), ''com'']" "\<lambda>l. l"] a c
    by simp
  have r3: "\<exists>bs. encodeDnsName (\<lambda>l. l)
              (replicate 63 (CHR ''a'') @ ''.'' @ replicate 57 (CHR ''b'') @ ''.com'') = Inr bs
           \<and> length bs = 126"
    using encodeDnsName_size_limits
      [of "[replicate 63 (CHR ''a''), replicate 57 (CHR ''b''), ''com'']" "\<lambda>l. l"] a b c
    by (simp add: encoded_size_def)
  have r4: "encodeDnsName (\<lambda>l. l)
         (replicate 63 (CHR ''a'') @ ''.'' @ replicate 58 (CHR ''b'') @ ''.com'')
       = Inl (EncodedNameTooLarge 127)"
    using encodeDnsName_size_limits
      [of "[replicate 63 (CHR ''a''), replicate 58 (CHR ''b''), ''com'']" "\<lambda>l. l"] a b c
    by (simp add: encoded_size_def)
  show ?thesis using r1 r2 r3 r4 by blast
qed

section \<open>The facade: signing and verification\<close>

lemma verifySignData_via_digest:
  "verifySignData L U r pk =
     (case recomputedDigest L U r of
        Inl e \<Rightarrow> Inl e
      | Inr h \<Rightarrow> nacl_sign_detached_verify L h (from_base64 L (signature r)) pk)"
  by (simp add: verifySignData_def recomputedDigest_def finalHash_def split: sum.splits)

lemma signData_Inr:
  "signData L U now p = Inr r \<longleftrightarrow>
     (\<exists>a h. Address_parse L (p_address p) = Inr a
        \<and> finalHash U (p_payload p) a (p_domain p) (now div 1000) = Inr h
        \<and> length (p_privateKey p) = 64
        \<and> r = \<lparr>signature = to_base64 L (ed25519_sign L h (p_privateKey p)),
                address = p_address p,
                timestamp = now div 1000,
                domain = p_domain p,
                payload = p_payload p\<rparr>)"
  by (auto simp: signData_def finalHash_def nacl_sign_detached_def Let_def split: sum.splits)


text \<open>
  C1: signing then verifying succeeds. Whenever the address parses, the digest function
  returns a digest, the secret key has its 64 bytes and the public key its 32, the
  Ed25519 primitive returns a 64-byte signature of that digest which it accepts under
  the public key (the key pair matches), and the base64 codec gives that signature back,
  \<open>signData\<close> returns a result and \<open>verifySignData\<close> of that result and the public key
  returns \<open>true\<close>. The digest functions \<open>U\<close> are arbitrary.
\<close>
theorem sign_then_verify:
  assumes "Address_parse L (p_address p) = Inr a"
    and "finalHash U (p_payload p) a (p_domain p) (now div 1000) = Inr h"
    and "length (p_privateKey p) = 64"
    and "length pk = 32"
    and "length (ed25519_sign L h (p_privateKey p)) = 64"
    and "ed25519_verify L h (ed25519_sign L h (p_privateKey p)) pk"
    and "from_base64 L (to_base64 L (ed25519_sign L h (p_privateKey p)))
           = ed25519_sign L h (p_privateKey p)"
  shows "\<exists>r. signData L U now p = Inr r \<and> verifySignData L U r pk = Inr True"
proof -
  let ?r = "\<lparr>signature = to_base64 L (ed25519_sign L h (p_privateKey p)),
             address = p_address p, timestamp = now div 1000,
             domain = p_domain p, payload = p_payload p\<rparr>"
  have s: "signData L U now p = Inr ?r"
    using assms(1,2,3) by (simp add: signData_Inr)
  have d: "recomputedDigest L U ?r = Inr h"
    using assms(1,2) by (simp add: recomputedDigest_def)
  have "verifySignData L U ?r pk = Inr True"
    using assms(4,5,6,7) by (simp add: verifySignData_via_digest d nacl_sign_detached_verify_def)
  then show ?thesis using s by blast
qed

theorem sign_then_verify_witness:
  "Address_parse demo_libs (p_address demo_params)
     = Inr (Address 0 ''CyqTmXJpshFu1GW1tyTX6paa3c-37OG9'')
   \<and> finalHash (spec_utils demo_codecs) (p_payload demo_params)
        (Address 0 ''CyqTmXJpshFu1GW1tyTX6paa3c-37OG9'') (p_domain demo_params)
        (demo_now div 1000) = Inr (take 32 demo_signature)
   \<and> length (p_privateKey demo_params) = 64
   \<and> length demo_publicKey = 32
   \<and> (\<exists>r. signData demo_libs (spec_utils demo_codecs) demo_now demo_params = Inr r
          \<and> verifySignData demo_libs (spec_utils demo_codecs) r demo_publicKey = Inr True)"
proof -
  have a: "Address_parse demo_libs (p_address demo_params)
     = Inr (Address 0 ''CyqTmXJpshFu1GW1tyTX6paa3c-37OG9'')"
    by code_simp
  have h: "finalHash (spec_utils demo_codecs) (p_payload demo_params)
        (Address 0 ''CyqTmXJpshFu1GW1tyTX6paa3c-37OG9'') (p_domain demo_params)
        (demo_now div 1000) = Inr (take 32 demo_signature)"
    by code_simp
  have k: "length (p_privateKey demo_params) = 64" by code_simp
  have pk: "length demo_publicKey = 32" by code_simp
  have sl: "length (ed25519_sign demo_libs (take 32 demo_signature) (p_privateKey demo_params)) = 64"
    by code_simp
  have v: "ed25519_verify demo_libs (take 32 demo_signature)
             (ed25519_sign demo_libs (take 32 demo_signature) (p_privateKey demo_params))
             demo_publicKey"
    by code_simp
  have b: "from_base64 demo_libs
             (to_base64 demo_libs
               (ed25519_sign demo_libs (take 32 demo_signature) (p_privateKey demo_params)))
           = ed25519_sign demo_libs (take 32 demo_signature) (p_privateKey demo_params)"
    by (simp add: demo_libs_def)
  show ?thesis
    using a h k pk sign_then_verify [OF a h k pk sl v b] by blast
qed

text \<open>
  C8: a result of \<open>signData\<close> carries the address, the domain and the payload exactly as
  the caller supplied them, and its timestamp is the clock reading \<open>now\<close> (milliseconds)
  truncated to whole seconds.
\<close>
theorem signData_echoes_inputs:
  assumes "signData L U now p = Inr r"
  shows "address r = p_address p \<and> domain r = p_domain p \<and> payload r = p_payload p
         \<and> timestamp r = now div 1000
         \<and> timestamp r * 1000 \<le> now \<and> now < (timestamp r + 1) * 1000"
proof -
  have "timestamp r = now div 1000" using assms by (auto simp: signData_Inr)
  moreover have "(now div 1000) * 1000 \<le> now \<and> now < (now div 1000 + 1) * 1000"
    by presburger
  ultimately show ?thesis using assms by (auto simp: signData_Inr)
qed

theorem signData_echoes_inputs_witness:
  "signData demo_libs (spec_utils demo_codecs) demo_now demo_params = Inr demo_signed
   \<and> address demo_signed = p_address demo_params
   \<and> domain demo_signed = p_domain demo_params
   \<and> payload demo_signed = p_payload demo_params
   \<and> timestamp demo_signed = 1703980800
   \<and> demo_now = 1703980800123"
proof -
  have s: "signData demo_libs (spec_utils demo_codecs) demo_now demo_params = Inr demo_signed"
    by code_simp
  show ?thesis
    using s signData_echoes_inputs [OF s] by (simp add: demo_now_def)
qed

text \<open>
  C9: the digest \<open>verifySignData\<close> recomputes does not depend on the carried signature:
  replacing the signature field leaves it unchanged, it is determined by the address,
  timestamp, domain and payload fields alone, and the verdict is the Ed25519 check of the
  decoded signature against that digest.
\<close>
theorem digest_ignores_signature:
  "recomputedDigest L U (r\<lparr>signature := s\<rparr>) = recomputedDigest L U r
   \<and> recomputedDigest L U
         \<lparr>signature = s, address = address r, timestamp = timestamp r,
          domain = domain r, payload = payload r\<rparr> = recomputedDigest L U r
   \<and> verifySignData L U r pk =
       (case recomputedDigest L U r of
          Inl e \<Rightarrow> Inl e
        | Inr h \<Rightarrow> nacl_sign_detached_verify L h (from_base64 L (signature r)) pk)"
  by (simp add: verifySignData_via_digest recomputedDigest_def split: sum.split)

text \<open>
  C10: when the digest is recomputed without error, \<open>verifySignData\<close> hands the
  base64-decoded signature to \<open>nacl.sign.detached.verify\<close> unchecked and returns what it
  returns; a signature that does not decode to 64 bytes makes the primitive's
  bad-signature-size error the outcome of \<open>verifySignData\<close>, not \<open>false\<close>.
\<close>
theorem bad_signature_size_propagates:
  assumes "recomputedDigest L U r = Inr h"
  shows "verifySignData L U r pk
           = nacl_sign_detached_verify L h (from_base64 L (signature r)) pk
         \<and> (length (from_base64 L (signature r)) \<noteq> 64 \<longrightarrow>
              verifySignData L U r pk = Inl BadSignatureSize)"
  using assms by (simp add: verifySignData_via_digest nacl_sign_detached_verify_def)

theorem bad_signature_size_propagates_witness:
  "recomputedDigest demo_libs (spec_utils demo_codecs) (demo_signed\<lparr>signature := ''AAAA''\<rparr>)
     = Inr (take 32 demo_signature)
   \<and> length (from_base64 demo_libs (signature (demo_signed\<lparr>signature := ''AAAA''\<rparr>))) \<noteq> 64
   \<and> verifySignData demo_libs (spec_utils demo_codecs) (demo_signed\<lparr>signature := ''AAAA''\<rparr>)
       demo_publicKey = Inl BadSignatureSize"
proof -
  have d: "recomputedDigest demo_libs (spec_utils demo_codecs)
             (demo_signed\<lparr>signature := ''AAAA''\<rparr>) = Inr (take 32 demo_signature)"
    by code_simp
  have l: "length (from_base64 demo_libs (signature (demo_signed\<lparr>signature := ''AAAA''\<rparr>))) \<noteq> 64"
    by (simp add: demo_libs_def)
  show ?thesis
    using d l bad_signature_size_propagates [OF d, of demo_publicKey] by blast
qed

section \<open>Malformed input, tampering and determinism\<close>






























end
